theory Spec2Isabelle
  imports Main
begin

section \<open>The upload action of src/appetize.ts\<close>

text \<open>
  The module reads fifteen options from the hosting environment once, validates them,
  builds the address and the body of one POST request, writes three diagnostic lines and
  hands the request to the HTTP client. The functions of the module read the module-level
  object \<open>inputs\<close>; here each of them takes that object as its argument, and
  \<open>uploadBuild\<close> threads a small store, so that the copy made for the diagnostic
  line and the original object are two cells of it.
\<close>

subsection \<open>JavaScript values used by the module\<close>

text \<open>
  A \<open>number\<close> of the module is the result of \<open>Number(text)\<close>, a double. Its values
  are \<open>NaN\<close>, the two infinities, and the finite ones. \<open>Num i\<close> is the integral value
  \<open>i\<close> (both zeros are \<open>Num 0\<close>); it is used for integers of magnitude up to
  \<open>2 ^ 53\<close>, which are doubles and print as their decimal digits. Every other finite
  value, such as \<open>30.5\<close>, is \<open>Decimal negative s n\<close>: it is named by the digits
  \<open>s\<close> and the position \<open>n\<close> of the decimal point that the standard's
  \<open>Number::toString\<close> finds for its magnitude (\<open>s\<close> has \<open>k\<close> digits, the last
  one not zero, and the magnitude is \<open>s * 10 ^ (n - k)\<close>), so \<open>30.5\<close> is
  \<open>Decimal False 305 2\<close> and \<open>1e21\<close> is \<open>Decimal False 1 22\<close>. A \<open>Decimal\<close>
  is never equal to a \<open>Num\<close>.
\<close>

datatype number = NaN | Num int | Decimal bool nat int | Infinity | NegInfinity

text \<open>\<open>Boolean(s)\<close> and the truth test of a condition: a string is true unless empty,
  a number unless it is zero or \<open>NaN\<close>.\<close>

definition Boolean_string :: "string \<Rightarrow> bool" where
  "Boolean_string s = (s \<noteq> [])"

definition Boolean_number :: "number \<Rightarrow> bool" where
  "Boolean_number n =
     (case n of
        NaN \<Rightarrow> False
      | Num i \<Rightarrow> i \<noteq> 0
      | Decimal negative s k \<Rightarrow> True
      | Infinity \<Rightarrow> True
      | NegInfinity \<Rightarrow> True)"

text \<open>\<open>String(x)\<close> for a boolean and for a number. \<open>decimalText s n\<close> follows the
  last five steps of \<open>Number::toString\<close>: plain digits, digits around a point, a leading
  \<open>0.\<close>, and the two exponent forms.\<close>

definition String_boolean :: "bool \<Rightarrow> string" where
  "String_boolean b = (if b then ''true'' else ''false'')"

fun natToString :: "nat \<Rightarrow> string" where
  "natToString n =
     (if n < 10 then [''0123456789'' ! n]
      else natToString (n div 10) @ [''0123456789'' ! (n mod 10)])"

definition exponentText :: "int \<Rightarrow> string" where
  "exponentText e = (if e < 0 then ''-'' else ''+'') @ natToString (nat \<bar>e\<bar>)"

definition decimalText :: "nat \<Rightarrow> int \<Rightarrow> string" where
  "decimalText s n =
     (let digits = natToString s; k = int (length digits)
      in if k \<le> n \<and> n \<le> 21 then digits @ replicate (nat (n - k)) CHR ''0''
         else if 0 < n \<and> n \<le> 21 then take (nat n) digits @ ''.'' @ drop (nat n) digits
         else if - 6 < n \<and> n \<le> 0 then ''0.'' @ replicate (nat (- n)) CHR ''0'' @ digits
         else if k = 1 then digits @ ''e'' @ exponentText (n - 1)
         else take 1 digits @ ''.'' @ drop 1 digits @ ''e'' @ exponentText (n - 1))"

definition String_number :: "number \<Rightarrow> string" where
  "String_number n =
     (case n of
        NaN \<Rightarrow> ''NaN''
      | Num i \<Rightarrow> (if i < 0 then ''-'' @ natToString (nat (- i)) else natToString (nat i))
      | Decimal negative s k \<Rightarrow> (if negative then ''-'' else []) @ decimalText s k
      | Infinity \<Rightarrow> ''Infinity''
      | NegInfinity \<Rightarrow> ''-Infinity'')"

subsection \<open>The configuration record\<close>

record InputData =
  apiHost :: string
  apiToken :: string
  publicKey :: string
  platform :: string
  appFile :: string
  appUrl :: string
  fileType :: string
  "note" :: string
  timeout :: number
  disabled :: bool
  disableHome :: bool
  useLastFrame :: bool
  buttonText :: string
  postSessionButtonText :: string
  launchUrl :: string

text \<open>
  \<open>getInputs\<close>. The two collaborators are parameters: \<open>getInput\<close> is
  \<open>core.getInput\<close> (the text of an option, empty when the option is unset) and
  \<open>Number\<close> is JavaScript's conversion of a text to a number.
\<close>

definition getInputs :: "(string \<Rightarrow> string) \<Rightarrow> (string \<Rightarrow> number) \<Rightarrow> InputData" where
  "getInputs getInput Number =
     \<lparr> apiHost = getInput ''apiHost'',
       apiToken = getInput ''apiToken'',
       publicKey = getInput ''publicKey'',
       platform = getInput ''platform'',
       appFile = getInput ''appFile'',
       appUrl = getInput ''appUrl'',
       fileType = getInput ''fileType'',
       note = getInput ''note'',
       timeout = Number (getInput ''timeout''),
       disabled = Boolean_string (getInput ''disabled''),
       disableHome = Boolean_string (getInput ''disableHome''),
       useLastFrame = Boolean_string (getInput ''useLastFrame''),
       buttonText = getInput ''buttonText'',
       postSessionButtonText = getInput ''postSessionButtonText'',
       launchUrl = getInput ''launchUrl'' \<rparr>"

subsection \<open>Errors\<close>

text \<open>
  Every failure of the module is \<open>throw new Error(message)\<close>. The four names of the
  error taxonomy stand for the four messages; the builder throws the message of
  \<open>MissingSource\<close> too.
\<close>

datatype error = Error string

definition InvalidPlatform :: error where
  "InvalidPlatform = Error ''Platform must be either ios or android''"

definition MissingSource :: error where
  "MissingSource = Error ''Either appFile or appUrl must be specified''"

definition InvalidFileType :: error where
  "InvalidFileType = Error ''FileType must be either apk, zip, or tar.gz''"

definition InvalidTimeout :: error where
  "InvalidTimeout =
     Error ''Timeout must be either 30, 60, 120, 180, 300, 600, 1800, 3600, or 7200''"

subsection \<open>The validator\<close>

definition validateInputData :: "InputData \<Rightarrow> error + unit" where
  "validateInputData input =
     (if platform input \<noteq> ''ios'' \<and> platform input \<noteq> ''android'' then Inl InvalidPlatform
      else if \<not> Boolean_string (appFile input) \<and> \<not> Boolean_string (appUrl input)
        then Inl MissingSource
      else if Boolean_string (fileType input) \<and>
              fileType input \<noteq> ''apk'' \<and>
              fileType input \<noteq> ''zip'' \<and>
              fileType input \<noteq> ''tar.gz''
        then Inl InvalidFileType
      else if Boolean_number (timeout input) \<and>
              timeout input \<noteq> Num 30 \<and>
              timeout input \<noteq> Num 60 \<and>
              timeout input \<noteq> Num 120 \<and>
              timeout input \<noteq> Num 180 \<and>
              timeout input \<noteq> Num 300 \<and>
              timeout input \<noteq> Num 600 \<and>
              timeout input \<noteq> Num 1800 \<and>
              timeout input \<noteq> Num 3600 \<and>
              timeout input \<noteq> Num 7200
        then Inl InvalidTimeout
      else Inr ())"

subsection \<open>The target address\<close>

definition apiVersion :: string where
  "apiVersion = ''v1''"

definition url :: "InputData \<Rightarrow> string" where
  "url inputs =
     (let baseUrl = apiHost inputs @ ''/'' @ apiVersion @ ''/apps/''
      in if Boolean_string (publicKey inputs) then baseUrl @ publicKey inputs else baseUrl)"

subsection \<open>The multipart body\<close>

text \<open>
  A form is the list of its parts in the order they were appended. The value of a part is
  a text, or the read stream that \<open>createReadStream(path)\<close> opens on a path.
\<close>

datatype part = ReadStream string | Text string

type_synonym FormData = "(string \<times> part) list"

definition append_part :: "string \<Rightarrow> part \<Rightarrow> FormData \<Rightarrow> FormData" where
  "append_part key v form = form @ [(key, v)]"

text \<open>
  Modelled from the spec: \<open>OptionalFormData.appendOptional\<close>, the method of the class in
  \<open>./optionalformdata\<close>, which is not among the sources. The spec says of the file
  variant that a field is present in the body if and only if its source value is
  non-empty; the method gets the value as a text, so it appends the part exactly when
  that text is non-empty.
\<close>

definition appendOptional :: "string \<Rightarrow> string \<Rightarrow> FormData \<Rightarrow> FormData" where
  "appendOptional key v form = (if Boolean_string v then append_part key (Text v) form else form)"

definition fileData :: "InputData \<Rightarrow> FormData" where
  "fileData inputs =
     (let form = [];
          form = append_part ''file'' (ReadStream (appFile inputs)) form;
          form = append_part ''platform'' (Text (platform inputs)) form;
          form = appendOptional ''fileType'' (fileType inputs) form;
          form = appendOptional ''note'' (note inputs) form;
          form = appendOptional ''timeout'' (String_number (timeout inputs)) form;
          form = appendOptional ''disabled'' (String_boolean (disabled inputs)) form;
          form = appendOptional ''disableHome'' (String_boolean (disableHome inputs)) form;
          form = appendOptional ''useLastFrame'' (String_boolean (useLastFrame inputs)) form;
          form = appendOptional ''buttonText'' (buttonText inputs) form;
          form = appendOptional ''postSessionButtonText'' (postSessionButtonText inputs) form;
          form = appendOptional ''launchUrl'' (launchUrl inputs) form
      in form)"

subsection \<open>The object body\<close>

text \<open>An object literal is the list of its members, each a name and a typed value.\<close>

datatype jsvalue = JString string | JNumber number | JBoolean bool

type_synonym UrlData = "(string \<times> jsvalue) list"

definition urlData :: "InputData \<Rightarrow> UrlData" where
  "urlData inputs =
     [ (''url'', JString (appUrl inputs)),
       (''platform'', JString (platform inputs)),
       (''fileType'', JString (fileType inputs)),
       (''note'', JString (note inputs)),
       (''timeout'', JNumber (timeout inputs)),
       (''disabled'', JBoolean (disabled inputs)),
       (''disableHome'', JBoolean (disableHome inputs)),
       (''useLastFrame'', JBoolean (useLastFrame inputs)),
       (''buttonText'', JString (buttonText inputs)),
       (''postSessionButtonText'', JString (postSessionButtonText inputs)),
       (''launchUrl'', JString (launchUrl inputs)) ]"

subsection \<open>Choosing the body\<close>

text \<open>
  The headers of a form are what \<open>form.getHeaders()\<close> returns: the multipart content
  type, with a boundary that the form library chooses. The URL variant has none
  (\<open>undefined\<close>).
\<close>

datatype payload = Form FormData | Object UrlData

datatype headers = MultipartHeaders

definition getHeaders :: "FormData \<Rightarrow> headers" where
  "getHeaders form = MultipartHeaders"

definition dataAndHeaders :: "InputData \<Rightarrow> error + (payload \<times> headers option)" where
  "dataAndHeaders inputs =
     (if Boolean_string (appFile inputs) then
        (let data = fileData inputs in Inr (Form data, Some (getHeaders data)))
      else if Boolean_string (appUrl inputs) then Inr (Object (urlData inputs), None)
      else Inl MissingSource)"

subsection \<open>\<open>JSON.stringify\<close> of the configuration\<close>

text \<open>
  A string is quoted with the escapes of the JSON grammar; a number that is not finite is
  written \<open>null\<close>; an object is written with its members in their order of creation.
\<close>

definition hexDigit :: "nat \<Rightarrow> char" where
  "hexDigit n = ''0123456789abcdef'' ! n"

definition QuoteJSONChar :: "char \<Rightarrow> string" where
  "QuoteJSONChar c =
     (if c = CHR 0x08 then [CHR 0x5C, CHR ''b'']
      else if c = CHR 0x09 then [CHR 0x5C, CHR ''t'']
      else if c = CHR 0x0A then [CHR 0x5C, CHR ''n'']
      else if c = CHR 0x0C then [CHR 0x5C, CHR ''f'']
      else if c = CHR 0x0D then [CHR 0x5C, CHR ''r'']
      else if c = CHR 0x22 then [CHR 0x5C, CHR 0x22]
      else if c = CHR 0x5C then [CHR 0x5C, CHR 0x5C]
      else if (of_char c :: nat) < 32 then
        [CHR 0x5C, CHR ''u'', CHR ''0'', CHR ''0'',
         hexDigit (of_char c div 16), hexDigit (of_char c mod 16)]
      else [c])"

definition QuoteJSONString :: "string \<Rightarrow> string" where
  "QuoteJSONString s = [CHR 0x22] @ concat (map QuoteJSONChar s) @ [CHR 0x22]"

fun SerializeJSONProperty :: "jsvalue \<Rightarrow> string" where
  "SerializeJSONProperty (JString s) = QuoteJSONString s"
| "SerializeJSONProperty (JNumber NaN) = ''null''"
| "SerializeJSONProperty (JNumber Infinity) = ''null''"
| "SerializeJSONProperty (JNumber NegInfinity) = ''null''"
| "SerializeJSONProperty (JNumber (Num i)) = String_number (Num i)"
| "SerializeJSONProperty (JNumber (Decimal negative s n)) = String_number (Decimal negative s n)"
| "SerializeJSONProperty (JBoolean b) = String_boolean b"

fun join :: "string \<Rightarrow> string list \<Rightarrow> string" where
  "join sep [] = []"
| "join sep [x] = x"
| "join sep (x # y # ys) = x @ sep @ join sep (y # ys)"

definition SerializeJSONObject :: "(string \<times> jsvalue) list \<Rightarrow> string" where
  "SerializeJSONObject members =
     ''{'' @ join '','' (map (\<lambda>(k, v). QuoteJSONString k @ '':'' @ SerializeJSONProperty v) members) @ ''}''"

text \<open>The members of a configuration object, in the order \<open>getInputs\<close> writes them.\<close>

definition ownProperties :: "InputData \<Rightarrow> (string \<times> jsvalue) list" where
  "ownProperties obj =
     [ (''apiHost'', JString (apiHost obj)),
       (''apiToken'', JString (apiToken obj)),
       (''publicKey'', JString (publicKey obj)),
       (''platform'', JString (platform obj)),
       (''appFile'', JString (appFile obj)),
       (''appUrl'', JString (appUrl obj)),
       (''fileType'', JString (fileType obj)),
       (''note'', JString (note obj)),
       (''timeout'', JNumber (timeout obj)),
       (''disabled'', JBoolean (disabled obj)),
       (''disableHome'', JBoolean (disableHome obj)),
       (''useLastFrame'', JBoolean (useLastFrame obj)),
       (''buttonText'', JString (buttonText obj)),
       (''postSessionButtonText'', JString (postSessionButtonText obj)),
       (''launchUrl'', JString (launchUrl obj)) ]"

definition JSON_stringify :: "InputData \<Rightarrow> string" where
  "JSON_stringify obj = SerializeJSONObject (ownProperties obj)"

subsection \<open>The store and \<open>uploadBuild\<close>\<close>

text \<open>
  Configuration objects live in a store and are named by their index in it. Loading the
  module puts the object that \<open>getInputs\<close> returned in cell \<open>inputs\<close>. The spread
  \<open>{...obj}\<close> allocates a new cell holding a copy; an assignment to a field writes
  into the cell the reference names. \<open>core.info\<close> adds a line to the console.
\<close>

type_synonym ref = nat

record world =
  heap :: "InputData list"
  console :: "string list"

definition inputs :: ref where
  "inputs = 0"

definition load :: "InputData \<Rightarrow> world" where
  "load obj = \<lparr> heap = [obj], console = [] \<rparr>"

definition info :: "string \<Rightarrow> world \<Rightarrow> world" where
  "info message w = w\<lparr> console := console w @ [message] \<rparr>"

definition spread :: "ref \<Rightarrow> world \<Rightarrow> ref \<times> world" where
  "spread r w = (length (heap w), w\<lparr> heap := heap w @ [heap w ! r] \<rparr>)"

definition assign_apiToken :: "ref \<Rightarrow> string \<Rightarrow> world \<Rightarrow> world" where
  "assign_apiToken r v w = w\<lparr> heap := (heap w)[r := (heap w ! r)\<lparr> apiToken := v \<rparr>] \<rparr>"

text \<open>
  The request handed to \<open>axios.post\<close>: the address, the body, the basic-auth pair and
  the headers. The module sets no limit on the size of the body or of the response.
\<close>

record request =
  address :: string
  body :: payload
  username :: string
  password :: string
  requestHeaders :: "headers option"

text \<open>
  \<open>uploadBuild\<close> up to the call of the HTTP client: it fails with the error thrown, or
  returns the world after the three diagnostic lines and the request it sends.
\<close>

definition uploadBuild :: "world \<Rightarrow> error + (world \<times> request)" where
  "uploadBuild w0 =
     (case validateInputData (heap w0 ! inputs) of
        Inl e \<Rightarrow> Inl e
      | Inr _ \<Rightarrow>
          (case dataAndHeaders (heap w0 ! inputs) of
             Inl e \<Rightarrow> Inl e
           | Inr (data, hdrs) \<Rightarrow>
               (let w1 = info (''Uploading build to '' @ url (heap w0 ! inputs)) w0;
                    w2 = info ''Attached scrubbed build info:'' w1;
                    (scrubbedInputs, w3) = spread inputs w2;
                    w4 = assign_apiToken scrubbedInputs ''scrubbed'' w3;
                    w5 = info (JSON_stringify (heap w4 ! scrubbedInputs)) w4
                in Inr (w5,
                     \<lparr> address = url (heap w5 ! inputs),
                       body = data,
                       username = apiToken (heap w5 ! inputs),
                       password = [],
                       requestHeaders = hdrs \<rparr>))))"

text \<open>What a run wrote to the console (nothing when it failed before the first line).\<close>

definition diagnostics :: "error + (world \<times> request) \<Rightarrow> string list" where
  "diagnostics r = (case r of Inl e \<Rightarrow> [] | Inr (w, q) \<Rightarrow> console w)"

text \<open>\<open>contains s p\<close>: the text \<open>p\<close> occurs in \<open>s\<close>.\<close>

fun startsWith :: "string \<Rightarrow> string \<Rightarrow> bool" where
  "startsWith s [] = True"
| "startsWith [] (p # ps) = False"
| "startsWith (c # s) (p # ps) = (c = p \<and> startsWith s ps)"

fun contains :: "string \<Rightarrow> string \<Rightarrow> bool" where
  "contains [] p = (p = [])"
| "contains (c # s) p = (startsWith (c # s) p \<or> contains s p)"

text \<open>
  \<open>optionalPart key v\<close>: the parts an optional text field contributes to a form, none
  when the text is empty. It is used to state the shape of \<open>fileData\<close>.
\<close>

definition optionalPart :: "string \<Rightarrow> string \<Rightarrow> FormData" where
  "optionalPart key v = (if v = [] then [] else [(key, Text v)])"

subsection \<open>Concrete configurations\<close>

text \<open>
  \<open>example\<close> is the end-to-end scenario of the specification (a remote URL, no
  identifier); \<open>fileExample\<close> uploads a local file and leaves every optional setting
  unset; \<open>leaky\<close> repeats its token in the note. \<open>textOptions\<close> is an environment
  that sets the platform, a file path and the timeout text \<open>abc\<close>, and \<open>notNumeric\<close>
  is \<open>Number\<close> on the two texts that environment makes it read: the text \<open>abc\<close> is
  not numeric and converts to \<open>NaN\<close>.
\<close>

definition example :: InputData where
  "example =
     \<lparr> apiHost = ''https://api.example.com'', apiToken = ''tok'', publicKey = [],
       platform = ''android'', appFile = [], appUrl = ''https://files/app.apk'',
       fileType = ''apk'', note = [], timeout = Num 60, disabled = False,
       disableHome = False, useLastFrame = False, buttonText = [],
       postSessionButtonText = [], launchUrl = [] \<rparr>"

definition fileExample :: InputData where
  "fileExample =
     \<lparr> apiHost = ''https://api.example.com'', apiToken = ''tok'', publicKey = [],
       platform = ''android'', appFile = ''app.apk'', appUrl = [],
       fileType = [], note = [], timeout = Num 0, disabled = False,
       disableHome = False, useLastFrame = False, buttonText = [],
       postSessionButtonText = [], launchUrl = [] \<rparr>"

definition leaky :: InputData where
  "leaky = example\<lparr> apiToken := ''tok_1234'', note := ''nightly tok_1234'' \<rparr>"

definition textOptions :: "string \<Rightarrow> string" where
  "textOptions name =
     (if name = ''platform'' then ''android''
      else if name = ''appFile'' then ''app.apk''
      else if name = ''timeout'' then ''abc''
      else [])"

definition notNumeric :: "string \<Rightarrow> number" where
  "notNumeric s = (if s = [] then Num 0 else NaN)"

section \<open>Auxiliary facts\<close>

lemmas error_defs = InvalidPlatform_def MissingSource_def InvalidFileType_def InvalidTimeout_def

lemma startsWith_append: "startsWith (p @ s) p"
  by (induction p) simp_all

lemma contains_prefix: "contains (p @ b) p"
  by (cases "p @ b") (use startsWith_append [of p b] in auto)

lemma contains_append: "contains (a @ p @ b) p"
proof (induction a)
  case Nil
  show ?case using contains_prefix by simp
next
  case (Cons x a)
  then show ?case by simp
qed

lemma stringify_shows_token_member:
  "contains (JSON_stringify obj)
     (QuoteJSONString ''apiToken'' @ '':'' @ QuoteJSONString (apiToken obj))"
proof -
  define a where
    "a = ''{'' @ QuoteJSONString ''apiHost'' @ '':'' @ QuoteJSONString (apiHost obj) @ '',''"
  define p where "p = QuoteJSONString ''apiToken'' @ '':'' @ QuoteJSONString (apiToken obj)"
  obtain b where "JSON_stringify obj = a @ p @ b"
    by (simp add: JSON_stringify_def SerializeJSONObject_def ownProperties_def a_def p_def)
  then show ?thesis using contains_append [of a p b] by (simp add: p_def)
qed

lemma natToString_nonempty: "natToString n \<noteq> []"
  by (subst natToString.simps) simp

lemma decimalText_nonempty: "decimalText s n \<noteq> []"
  using natToString_nonempty [of s]
  by (simp add: decimalText_def Let_def del: natToString.simps)

lemma String_number_nonempty: "String_number n \<noteq> []"
  by (simp add: String_number_def natToString_nonempty decimalText_nonempty split: number.splits)

lemma String_boolean_nonempty: "String_boolean b \<noteq> []"
  by (simp add: String_boolean_def)

text \<open>
  The shape of the multipart body for every configuration: the five text options are
  present exactly when non-empty, while the timeout and the three flags are always
  present, because the text of a number or of a boolean is never empty.
\<close>

lemma fileData_parts:
  "fileData c =
     [(''file'', ReadStream (appFile c)), (''platform'', Text (platform c))] @
     optionalPart ''fileType'' (fileType c) @
     optionalPart ''note'' (note c) @
     [(''timeout'', Text (String_number (timeout c))),
      (''disabled'', Text (String_boolean (disabled c))),
      (''disableHome'', Text (String_boolean (disableHome c))),
      (''useLastFrame'', Text (String_boolean (useLastFrame c)))] @
     optionalPart ''buttonText'' (buttonText c) @
     optionalPart ''postSessionButtonText'' (postSessionButtonText c) @
     optionalPart ''launchUrl'' (launchUrl c)"
  by (simp add: fileData_def appendOptional_def append_part_def optionalPart_def Boolean_string_def
      String_number_nonempty String_boolean_nonempty)

text \<open>A run on a freshly loaded module, step by step.\<close>

lemma uploadBuild_load:
  "uploadBuild (load c) =
     (case validateInputData c of
        Inl e \<Rightarrow> Inl e
      | Inr _ \<Rightarrow>
          (case dataAndHeaders c of
             Inl e \<Rightarrow> Inl e
           | Inr (data, hdrs) \<Rightarrow>
               Inr (\<lparr> heap = [c, c\<lparr>apiToken := ''scrubbed''\<rparr>],
                      console = [''Uploading build to '' @ url c,
                                 ''Attached scrubbed build info:'',
                                 JSON_stringify (c\<lparr>apiToken := ''scrubbed''\<rparr>)] \<rparr>,
                    \<lparr> address = url c, body = data, username = apiToken c,
                      password = [], requestHeaders = hdrs \<rparr>)))"
  by (simp add: uploadBuild_def load_def inputs_def info_def spread_def assign_apiToken_def Let_def
      split: sum.splits prod.splits)

lemma validate_token_free: "validateInputData (c\<lparr>apiToken := t\<rparr>) = validateInputData c"
  by (simp add: validateInputData_def)

lemma dataAndHeaders_token_free: "dataAndHeaders (c\<lparr>apiToken := t\<rparr>) = dataAndHeaders c"
  by (simp add: dataAndHeaders_def fileData_def urlData_def)

lemma url_token_free: "url (c\<lparr>apiToken := t\<rparr>) = url c"
  by (simp add: url_def Let_def)

lemma validated_has_source:
  "validateInputData c = Inr () \<Longrightarrow> \<exists>d h. dataAndHeaders c = Inr (d, h)"
  by (auto simp add: validateInputData_def dataAndHeaders_def Let_def split: if_splits)

lemma example_valid: "validateInputData example = Inr ()"
  by (simp add: example_def validateInputData_def Boolean_string_def Boolean_number_def)

lemma fileExample_valid: "validateInputData fileExample = Inr ()"
  by (simp add: fileExample_def validateInputData_def Boolean_string_def Boolean_number_def)

section \<open>The validator\<close>

text \<open>
  Claim C8. The validator checks its rules in the order platform, source presence, file
  type, timeout, and stops at the first rule that is violated. A platform other than
  \<open>ios\<close> and \<open>android\<close> (the empty text too) fails with \<open>InvalidPlatform\<close> whatever
  the other fields hold; with a valid platform and no source the failure is
  \<open>MissingSource\<close> whatever the file type and the timeout are; with a valid platform and
  a source, a file type outside the list fails with \<open>InvalidFileType\<close> whatever the
  timeout is; and \<open>InvalidTimeout\<close> is reported only when the three earlier rules hold.
\<close>

theorem validate_platform_first:
  "(platform c \<noteq> ''ios'' \<and> platform c \<noteq> ''android'' \<longrightarrow>
      validateInputData c = Inl InvalidPlatform) \<and>
   ((platform c = ''ios'' \<or> platform c = ''android'') \<and> appFile c = [] \<and> appUrl c = [] \<longrightarrow>
      validateInputData c = Inl MissingSource) \<and>
   ((platform c = ''ios'' \<or> platform c = ''android'') \<and> (appFile c \<noteq> [] \<or> appUrl c \<noteq> []) \<and>
    fileType c \<notin> {[], ''apk'', ''zip'', ''tar.gz''} \<longrightarrow>
      validateInputData c = Inl InvalidFileType) \<and>
   (validateInputData c = Inl InvalidTimeout \<longrightarrow>
      (platform c = ''ios'' \<or> platform c = ''android'') \<and> (appFile c \<noteq> [] \<or> appUrl c \<noteq> []) \<and>
      fileType c \<in> {[], ''apk'', ''zip'', ''tar.gz''})"
  by (auto simp add: validateInputData_def Boolean_string_def error_defs split: if_splits)

theorem validate_platform_first_witness:
  "platform (example\<lparr>platform := [], appUrl := [], fileType := ''exe'', timeout := Num 45\<rparr>) \<noteq> ''ios'' \<and>
   platform (example\<lparr>platform := [], appUrl := [], fileType := ''exe'', timeout := Num 45\<rparr>) \<noteq> ''android'' \<and>
   validateInputData (example\<lparr>platform := [], appUrl := [], fileType := ''exe'', timeout := Num 45\<rparr>)
     = Inl InvalidPlatform \<and>
   validateInputData (example\<lparr>appUrl := [], fileType := ''exe'', timeout := Num 45\<rparr>)
     = Inl MissingSource \<and>
   validateInputData (example\<lparr>fileType := ''exe'', timeout := Num 45\<rparr>) = Inl InvalidFileType \<and>
   validateInputData (example\<lparr>timeout := Num 45\<rparr>) = Inl InvalidTimeout \<and>
   platform (example\<lparr>timeout := Num 45\<rparr>) = ''android'' \<and>
   fileType (example\<lparr>timeout := Num 45\<rparr>) = ''apk''"
  using
    validate_platform_first
      [of "example\<lparr>platform := [], appUrl := [], fileType := ''exe'', timeout := Num 45\<rparr>"]
    validate_platform_first [of "example\<lparr>appUrl := [], fileType := ''exe'', timeout := Num 45\<rparr>"]
    validate_platform_first [of "example\<lparr>fileType := ''exe'', timeout := Num 45\<rparr>"]
    validate_platform_first [of "example\<lparr>timeout := Num 45\<rparr>"]
  by (simp add: example_def validateInputData_def Boolean_string_def Boolean_number_def)

text \<open>
  Claim C7. With a valid platform, a configuration whose file path and remote URL are both
  empty fails validation with \<open>MissingSource\<close>; and the request builder, called on any
  configuration with neither source, fails with \<open>MissingSource\<close> itself.
\<close>

theorem missing_source:
  "((platform c = ''ios'' \<or> platform c = ''android'') \<and> appFile c = [] \<and> appUrl c = [] \<longrightarrow>
      validateInputData c = Inl MissingSource) \<and>
   (appFile c = [] \<and> appUrl c = [] \<longrightarrow> dataAndHeaders c = Inl MissingSource)"
  by (simp add: validateInputData_def dataAndHeaders_def Boolean_string_def)

theorem missing_source_witness:
  "platform (example\<lparr>appUrl := []\<rparr>) = ''android'' \<and>
   appFile (example\<lparr>appUrl := []\<rparr>) = [] \<and> appUrl (example\<lparr>appUrl := []\<rparr>) = [] \<and>
   validateInputData (example\<lparr>appUrl := []\<rparr>) = Inl MissingSource \<and>
   dataAndHeaders (example\<lparr>appUrl := []\<rparr>) = Inl MissingSource \<and>
   MissingSource = Error ''Either appFile or appUrl must be specified''"
  using missing_source [of "example\<lparr>appUrl := []\<rparr>"]
  by (simp add: example_def MissingSource_def)

text \<open>
  Claim C1 does not hold of the code. The timeout checked is the number \<open>Number\<close>
  makes of the text of the \<open>timeout\<close> option, and a text that is not numeric, such as
  \<open>abc\<close>, converts to \<open>NaN\<close>. \<open>NaN\<close> is not zero and not one of 30, 60, 120, 180,
  300, 600, 1800, 3600, 7200, but the guard of the timeout rule tests the truth of the
  number first and \<open>NaN\<close> is false, so validation succeeds where the claim (and the
  comment of the rule, that the timeout must be a valid number) requires
  \<open>InvalidTimeout\<close>. The value is then sent: as the text \<open>NaN\<close> in the multipart
  body and as the member \<open>timeout\<close> of the object body.
\<close>

theorem timeout_nan_passes:
  "textOptions ''timeout'' = ''abc'' \<and> notNumeric ''abc'' = NaN \<and>
   timeout (getInputs textOptions notNumeric) = NaN \<and>
   NaN \<noteq> Num 0 \<and> NaN \<notin> Num ` {30, 60, 120, 180, 300, 600, 1800, 3600, 7200} \<and>
   validateInputData (getInputs textOptions notNumeric) = Inr () \<and>
   validateInputData (getInputs textOptions notNumeric) \<noteq> Inl InvalidTimeout \<and>
   fileData (getInputs textOptions notNumeric) =
     [(''file'', ReadStream ''app.apk''), (''platform'', Text ''android''),
      (''timeout'', Text ''NaN''), (''disabled'', Text ''false''),
      (''disableHome'', Text ''false''), (''useLastFrame'', Text ''false'')] \<and>
   timeout (example\<lparr>timeout := NaN\<rparr>) = NaN \<and>
   validateInputData (example\<lparr>timeout := NaN\<rparr>) = Inr () \<and>
   map_of (urlData (example\<lparr>timeout := NaN\<rparr>)) ''timeout'' = Some (JNumber NaN)"
  by (simp add: textOptions_def notNumeric_def getInputs_def example_def validateInputData_def
      Boolean_string_def Boolean_number_def fileData_def append_part_def appendOptional_def
      String_number_def String_boolean_def urlData_def)

section \<open>Reading the options\<close>

text \<open>
  Claim C9. Each of the flags \<open>disabled\<close>, \<open>disableHome\<close> and \<open>useLastFrame\<close> of the
  configuration is true exactly when the text of its option is non-empty; in particular
  the text \<open>false\<close> gives the flag the value true.
\<close>

theorem boolean_flags:
  "disabled (getInputs getInput Number) = (getInput ''disabled'' \<noteq> []) \<and>
   disableHome (getInputs getInput Number) = (getInput ''disableHome'' \<noteq> []) \<and>
   useLastFrame (getInputs getInput Number) = (getInput ''useLastFrame'' \<noteq> []) \<and>
   (getInput ''disabled'' = ''false'' \<longrightarrow> disabled (getInputs getInput Number)) \<and>
   (getInput ''disableHome'' = ''false'' \<longrightarrow> disableHome (getInputs getInput Number)) \<and>
   (getInput ''useLastFrame'' = ''false'' \<longrightarrow> useLastFrame (getInputs getInput Number))"
  by (simp add: getInputs_def Boolean_string_def)

theorem boolean_flags_witness:
  "disabled (getInputs (\<lambda>name. if name = ''disableHome'' then [] else ''false'') (\<lambda>s. NaN)) \<and>
   \<not> disableHome (getInputs (\<lambda>name. if name = ''disableHome'' then [] else ''false'') (\<lambda>s. NaN)) \<and>
   useLastFrame (getInputs (\<lambda>name. if name = ''disableHome'' then [] else ''false'') (\<lambda>s. NaN)) \<and>
   disableHome (getInputs (\<lambda>name. ''false'') (\<lambda>s. NaN))"
  using
    boolean_flags [of "\<lambda>name. if name = ''disableHome'' then [] else ''false''" "\<lambda>s. NaN"]
    boolean_flags [of "\<lambda>name. ''false''" "\<lambda>s. NaN"]
  by simp

section \<open>The request builder\<close>

text \<open>
  Claim C4. The target address is the host followed by \<open>/v1/apps/\<close> and, when the
  \<open>publicKey\<close> field is non-empty, by the identifier; with an empty \<open>publicKey\<close> it is
  the bare collection address. For the host \<open>https://api.example.com\<close> the address is
  \<open>https://api.example.com/v1/apps/abc123\<close> with the identifier \<open>abc123\<close> and
  \<open>https://api.example.com/v1/apps/\<close> without one.
\<close>

theorem url_target_address:
  "(publicKey c \<noteq> [] \<longrightarrow> url c = apiHost c @ ''/v1/apps/'' @ publicKey c) \<and>
   (publicKey c = [] \<longrightarrow> url c = apiHost c @ ''/v1/apps/'') \<and>
   (apiHost c = ''https://api.example.com'' \<and> publicKey c = ''abc123'' \<longrightarrow>
      url c = ''https://api.example.com/v1/apps/abc123'') \<and>
   (apiHost c = ''https://api.example.com'' \<and> publicKey c = [] \<longrightarrow>
      url c = ''https://api.example.com/v1/apps/'')"
  by (simp add: url_def apiVersion_def Boolean_string_def)

theorem url_target_address_witness:
  "apiHost (example\<lparr>publicKey := ''abc123''\<rparr>) = ''https://api.example.com'' \<and>
   publicKey (example\<lparr>publicKey := ''abc123''\<rparr>) = ''abc123'' \<and>
   url (example\<lparr>publicKey := ''abc123''\<rparr>) = ''https://api.example.com/v1/apps/abc123'' \<and>
   apiHost example = ''https://api.example.com'' \<and>
   publicKey example = [] \<and>
   url example = ''https://api.example.com/v1/apps/''"
  using url_target_address [of "example\<lparr>publicKey := ''abc123''\<rparr>"] url_target_address [of example]
  by (simp add: example_def)

text \<open>
  Claim C5. The builder produces the multipart file variant exactly when the file path is
  non-empty, and the URL variant exactly when the file path is empty and the remote URL is
  non-empty. When both are non-empty the file variant is chosen.
\<close>

theorem variant_selection:
  "((\<exists>form h. dataAndHeaders c = Inr (Form form, h)) = (appFile c \<noteq> [])) \<and>
   ((\<exists>obj h. dataAndHeaders c = Inr (Object obj, h)) = (appFile c = [] \<and> appUrl c \<noteq> [])) \<and>
   (appFile c \<noteq> [] \<longrightarrow>
      dataAndHeaders c = Inr (Form (fileData c), Some (getHeaders (fileData c)))) \<and>
   (appFile c = [] \<and> appUrl c \<noteq> [] \<longrightarrow> dataAndHeaders c = Inr (Object (urlData c), None)) \<and>
   (appFile c \<noteq> [] \<and> appUrl c \<noteq> [] \<longrightarrow>
      dataAndHeaders c = Inr (Form (fileData c), Some (getHeaders (fileData c))))"
  by (simp add: dataAndHeaders_def Boolean_string_def Let_def)

theorem variant_selection_witness:
  "appFile fileExample \<noteq> [] \<and>
   dataAndHeaders fileExample = Inr (Form (fileData fileExample), Some MultipartHeaders) \<and>
   appFile example = [] \<and> appUrl example \<noteq> [] \<and>
   dataAndHeaders example = Inr (Object (urlData example), None) \<and>
   appFile (example\<lparr>appFile := ''app.apk''\<rparr>) \<noteq> [] \<and>
   appUrl (example\<lparr>appFile := ''app.apk''\<rparr>) \<noteq> [] \<and>
   dataAndHeaders (example\<lparr>appFile := ''app.apk''\<rparr>) =
     Inr (Form (fileData (example\<lparr>appFile := ''app.apk''\<rparr>)), Some MultipartHeaders)"
  using variant_selection [of fileExample] variant_selection [of example]
    variant_selection [of "example\<lparr>appFile := ''app.apk''\<rparr>"]
  by (simp add: example_def fileExample_def getHeaders_def)

text \<open>
  Claim C6. For every configuration that passes validation, has an empty file path and a
  non-empty remote URL, the body is the URL variant, an object with the eleven members
  \<open>url\<close>, \<open>platform\<close>, \<open>fileType\<close>, \<open>note\<close>, \<open>timeout\<close>, \<open>disabled\<close>,
  \<open>disableHome\<close>, \<open>useLastFrame\<close>, \<open>buttonText\<close>, \<open>postSessionButtonText\<close> and
  \<open>launchUrl\<close>, each holding the configuration's value with its type (texts, a number,
  booleans). No member is left out: an empty note is the member \<open>note\<close> with the empty
  text.
\<close>

theorem url_body_members:
  "validateInputData c = Inr () \<and> appFile c = [] \<and> appUrl c \<noteq> [] \<longrightarrow>
     dataAndHeaders c = Inr (Object (urlData c), None) \<and>
     map fst (urlData c) =
       [''url'', ''platform'', ''fileType'', ''note'', ''timeout'', ''disabled'', ''disableHome'',
        ''useLastFrame'', ''buttonText'', ''postSessionButtonText'', ''launchUrl''] \<and>
     map snd (urlData c) =
       [JString (appUrl c), JString (platform c), JString (fileType c), JString (note c),
        JNumber (timeout c), JBoolean (disabled c), JBoolean (disableHome c),
        JBoolean (useLastFrame c), JString (buttonText c), JString (postSessionButtonText c),
        JString (launchUrl c)] \<and>
     (note c = [] \<longrightarrow> map_of (urlData c) ''note'' = Some (JString []))"
  by (simp add: dataAndHeaders_def Boolean_string_def urlData_def)

theorem url_body_members_witness:
  "validateInputData example = Inr () \<and> appFile example = [] \<and> appUrl example \<noteq> [] \<and>
   note example = [] \<and>
   dataAndHeaders example = Inr (Object (urlData example), None) \<and>
   map fst (urlData example) =
     [''url'', ''platform'', ''fileType'', ''note'', ''timeout'', ''disabled'', ''disableHome'',
      ''useLastFrame'', ''buttonText'', ''postSessionButtonText'', ''launchUrl''] \<and>
   map snd (urlData example) =
     [JString ''https://files/app.apk'', JString ''android'', JString ''apk'', JString [],
      JNumber (Num 60), JBoolean False, JBoolean False, JBoolean False, JString [],
      JString [], JString []] \<and>
   map_of (urlData example) ''note'' = Some (JString [])"
  using url_body_members [of example] example_valid
  by (simp add: example_def)

text \<open>
  Claim C2 does not hold of the code. The configuration \<open>fileExample\<close> passes validation,
  sets a file path and leaves the note, the timeout and the three flags at their
  defaults. The note is left out of the multipart body, as the claim says, but the
  timeout and the flags are sent, as the texts \<open>0\<close> and \<open>false\<close>:
  \<open>fileData\<close> passes \<open>String(value)\<close> to \<open>appendOptional\<close>, and that text is never
  empty.
\<close>

theorem fileData_sends_defaults:
  "validateInputData fileExample = Inr () \<and>
   note fileExample = [] \<and> timeout fileExample = Num 0 \<and> \<not> disabled fileExample \<and>
   \<not> disableHome fileExample \<and> \<not> useLastFrame fileExample \<and>
   fileData fileExample =
     [(''file'', ReadStream ''app.apk''), (''platform'', Text ''android''),
      (''timeout'', Text ''0''), (''disabled'', Text ''false''),
      (''disableHome'', Text ''false''), (''useLastFrame'', Text ''false'')]"
  by (simp add: fileExample_def validateInputData_def Boolean_string_def Boolean_number_def
      fileData_def append_part_def appendOptional_def String_number_def String_boolean_def)

section \<open>The diagnostic lines and the request\<close>

text \<open>
  Claim C3, as amended. The diagnostic output does not depend on the token: two
  configurations that differ only in \<open>apiToken\<close> write the same lines. For every
  configuration that passes validation the run writes three lines, the address line, a
  fixed line and the JSON text of a copy of the configuration; the \<open>apiToken\<close> field of
  that copy is the placeholder \<open>scrubbed\<close>, and the JSON text holds the member
  \<open>apiToken\<close> with the value \<open>scrubbed\<close>.
\<close>

theorem diagnostics_token_free:
  "diagnostics (uploadBuild (load (c\<lparr>apiToken := t\<rparr>))) = diagnostics (uploadBuild (load c)) \<and>
   (validateInputData c = Inr () \<longrightarrow>
      (\<exists>w q. uploadBuild (load c) = Inr (w, q) \<and>
         console w = [''Uploading build to '' @ url c, ''Attached scrubbed build info:'',
                      JSON_stringify (heap w ! 1)] \<and>
         heap w ! 1 = c\<lparr>apiToken := ''scrubbed''\<rparr> \<and>
         apiToken (heap w ! 1) = ''scrubbed'' \<and>
         contains (console w ! 2)
           (QuoteJSONString ''apiToken'' @ '':'' @ QuoteJSONString ''scrubbed'')))"
proof (intro conjI impI)
  show "diagnostics (uploadBuild (load (c\<lparr>apiToken := t\<rparr>))) = diagnostics (uploadBuild (load c))"
    by (simp add: uploadBuild_load validate_token_free dataAndHeaders_token_free url_token_free
        diagnostics_def split: sum.splits prod.splits)
next
  assume v: "validateInputData c = Inr ()"
  obtain d h where dh: "dataAndHeaders c = Inr (d, h)"
    using validated_has_source [OF v] by blast
  show "\<exists>w q. uploadBuild (load c) = Inr (w, q) \<and>
         console w = [''Uploading build to '' @ url c, ''Attached scrubbed build info:'',
                      JSON_stringify (heap w ! 1)] \<and>
         heap w ! 1 = c\<lparr>apiToken := ''scrubbed''\<rparr> \<and>
         apiToken (heap w ! 1) = ''scrubbed'' \<and>
         contains (console w ! 2)
           (QuoteJSONString ''apiToken'' @ '':'' @ QuoteJSONString ''scrubbed'')"
    using stringify_shows_token_member [of "c\<lparr>apiToken := ''scrubbed''\<rparr>"]
    by (simp add: uploadBuild_load v dh)
qed

theorem diagnostics_token_free_witness:
  "example\<lparr>apiToken := ''another token''\<rparr> \<noteq> example \<and>
   diagnostics (uploadBuild (load (example\<lparr>apiToken := ''another token''\<rparr>))) =
     diagnostics (uploadBuild (load example)) \<and>
   validateInputData example = Inr () \<and>
   (\<exists>w q. uploadBuild (load example) = Inr (w, q) \<and>
      length (console w) = 3 \<and>
      console w ! 0 = ''Uploading build to https://api.example.com/v1/apps/'' \<and>
      apiToken (heap w ! 1) = ''scrubbed'' \<and>
      contains (console w ! 2)
        (QuoteJSONString ''apiToken'' @ '':'' @ QuoteJSONString ''scrubbed''))"
proof -
  have d: "example\<lparr>apiToken := ''another token''\<rparr> \<noteq> example"
    by (simp add: example_def)
  have u: "url example = ''https://api.example.com/v1/apps/''"
    by (simp add: example_def url_def apiVersion_def Boolean_string_def)
  from diagnostics_token_free [where c = example and t = "''another token''"] example_valid d u
  show ?thesis by auto
qed

text \<open>
  The claim as first stated fails: the configuration \<open>leaky\<close> passes validation, its
  token is \<open>tok_1234\<close> and its note is \<open>nightly tok_1234\<close>; the third diagnostic line
  is the JSON text of the copy, whose \<open>note\<close> member still spells the token.
\<close>

theorem diagnostics_counterexample:
  "apiToken leaky = ''tok_1234'' \<and>
   validateInputData leaky = Inr () \<and>
   length (diagnostics (uploadBuild (load leaky))) = 3 \<and>
   contains (diagnostics (uploadBuild (load leaky)) ! 2) (apiToken leaky)"
  by (simp add: leaky_def example_def validateInputData_def Boolean_string_def Boolean_number_def
      diagnostics_def uploadBuild_load dataAndHeaders_def JSON_stringify_def
      SerializeJSONObject_def ownProperties_def QuoteJSONString_def QuoteJSONChar_def
      String_number_def String_boolean_def)

text \<open>
  Claim C10. The placeholder is written into a copy. In any world where the module is
  loaded, a run that reaches the HTTP client leaves the object \<open>inputs\<close> as it was, every
  field and the token included; the copy is a new cell of the store, the only one
  changed; and the request authenticates with the original token as user name and the
  empty password. Every configuration that passes validation reaches the HTTP client.
\<close>

theorem scrub_leaves_original:
  "(heap w \<noteq> [] \<and> uploadBuild w = Inr (w', q) \<longrightarrow>
      heap w' ! inputs = heap w ! inputs \<and>
      username q = apiToken (heap w ! inputs) \<and> password q = [] \<and>
      length (heap w') = Suc (length (heap w)) \<and>
      take (length (heap w)) (heap w') = heap w \<and>
      heap w' ! length (heap w) = (heap w ! inputs)\<lparr>apiToken := ''scrubbed''\<rparr>) \<and>
   (validateInputData c = Inr () \<longrightarrow>
      (\<exists>w' q. uploadBuild (load c) = Inr (w', q) \<and> heap w' ! inputs = c \<and>
         username q = apiToken c \<and> password q = []))"
proof (intro conjI impI)
  assume a: "heap w \<noteq> [] \<and> uploadBuild w = Inr (w', q)"
  then have pos: "0 < length (heap w)" by simp
  from a obtain d h where
    w': "w' = w\<lparr> heap := heap w @ [(heap w ! 0)\<lparr>apiToken := ''scrubbed''\<rparr>],
                 console := console w @
                   [''Uploading build to '' @ url (heap w ! 0), ''Attached scrubbed build info:'',
                    JSON_stringify ((heap w ! 0)\<lparr>apiToken := ''scrubbed''\<rparr>)] \<rparr>"
    and q: "q = \<lparr> address = url (heap w ! 0), body = d, username = apiToken (heap w ! 0),
                 password = [], requestHeaders = h \<rparr>"
    using pos
    by (auto simp add: uploadBuild_def inputs_def info_def spread_def assign_apiToken_def Let_def
        nth_append split: sum.splits prod.splits)
  show "heap w' ! inputs = heap w ! inputs"
    using pos by (simp add: w' inputs_def nth_append)
  show "username q = apiToken (heap w ! inputs)"
    by (simp add: q inputs_def)
  show "password q = []"
    by (simp add: q)
  show "length (heap w') = Suc (length (heap w))"
    by (simp add: w')
  show "take (length (heap w)) (heap w') = heap w"
    by (simp add: w')
  show "heap w' ! length (heap w) = (heap w ! inputs)\<lparr>apiToken := ''scrubbed''\<rparr>"
    by (simp add: w' inputs_def)
next
  assume v: "validateInputData c = Inr ()"
  obtain d h where dh: "dataAndHeaders c = Inr (d, h)"
    using validated_has_source [OF v] by blast
  show "\<exists>w' q. uploadBuild (load c) = Inr (w', q) \<and> heap w' ! inputs = c \<and>
         username q = apiToken c \<and> password q = []"
    by (simp add: uploadBuild_load v dh inputs_def)
qed

theorem scrub_leaves_original_witness:
  "heap (load example) \<noteq> [] \<and> validateInputData example = Inr () \<and>
   (\<exists>w' q. uploadBuild (load example) = Inr (w', q) \<and>
      heap w' ! inputs = example \<and> apiToken (heap w' ! inputs) = ''tok'' \<and>
      apiToken (heap w' ! 1) = ''scrubbed'' \<and>
      username q = ''tok'' \<and> password q = [])"
proof -
  have h: "heap (load example) \<noteq> []" and l: "length (heap (load example)) = 1"
    and i: "heap (load example) ! inputs = example"
    by (simp_all add: load_def inputs_def)
  have t: "apiToken example = ''tok''"
    by (simp add: example_def)
  from scrub_leaves_original [of "load example" _ _ example] example_valid
  obtain w' q where u: "uploadBuild (load example) = Inr (w', q)" by blast
  from scrub_leaves_original [of "load example" w' q example] h u
  have "heap w' ! inputs = heap (load example) ! inputs \<and>
        username q = apiToken (heap (load example) ! inputs) \<and> password q = [] \<and>
        heap w' ! length (heap (load example)) =
          (heap (load example) ! inputs)\<lparr>apiToken := ''scrubbed''\<rparr>"
    by blast
  with h u i l t example_valid show ?thesis by auto
qed

section \<open>Further properties\<close>

text \<open>
  The timeout rule is the last of the four. For every configuration that passes the
  platform, source and file-type rules and whose timeout is a number other than \<open>NaN\<close>,
  zero and 30, 60, 120, 180, 300, 600, 1800, 3600, 7200 (an unlisted integer, a fractional
  value or an infinity), validation fails with \<open>InvalidTimeout\<close>. A timeout of zero, or
  one of the listed values, never fails with \<open>InvalidTimeout\<close>. The timeout checked is
  the number \<open>Number\<close> makes of the text of the \<open>timeout\<close> option; an unset option has
  the empty text, which \<open>Number\<close> converts to zero, so it passes the timeout rule.
\<close>

theorem timeout_rule:
  "((platform c = ''ios'' \<or> platform c = ''android'') \<and> (appFile c \<noteq> [] \<or> appUrl c \<noteq> []) \<and>
    fileType c \<in> {[], ''apk'', ''zip'', ''tar.gz''} \<and>
    timeout c \<noteq> NaN \<and>
    timeout c \<notin> Num ` {0, 30, 60, 120, 180, 300, 600, 1800, 3600, 7200} \<longrightarrow>
      validateInputData c = Inl InvalidTimeout) \<and>
   (timeout c \<in> Num ` {0, 30, 60, 120, 180, 300, 600, 1800, 3600, 7200} \<longrightarrow>
      validateInputData c \<noteq> Inl InvalidTimeout) \<and>
   timeout (getInputs getInput Number) = Number (getInput ''timeout'') \<and>
   (getInput ''timeout'' = [] \<and> Number [] = Num 0 \<longrightarrow>
      validateInputData (getInputs getInput Number) \<noteq> Inl InvalidTimeout)"
proof (intro conjI impI)
  assume "(platform c = ''ios'' \<or> platform c = ''android'') \<and> (appFile c \<noteq> [] \<or> appUrl c \<noteq> []) \<and>
    fileType c \<in> {[], ''apk'', ''zip'', ''tar.gz''} \<and>
    timeout c \<noteq> NaN \<and>
    timeout c \<notin> Num ` {0, 30, 60, 120, 180, 300, 600, 1800, 3600, 7200}"
  then show "validateInputData c = Inl InvalidTimeout"
    by (cases "timeout c")
      (auto simp add: validateInputData_def Boolean_string_def Boolean_number_def)
next
  assume "timeout c \<in> Num ` {0, 30, 60, 120, 180, 300, 600, 1800, 3600, 7200}"
  then show "validateInputData c \<noteq> Inl InvalidTimeout"
    by (auto simp add: validateInputData_def Boolean_number_def error_defs)
next
  show "timeout (getInputs getInput Number) = Number (getInput ''timeout'')"
    by (simp add: getInputs_def)
next
  assume "getInput ''timeout'' = [] \<and> Number [] = Num 0"
  then show "validateInputData (getInputs getInput Number) \<noteq> Inl InvalidTimeout"
    by (simp add: validateInputData_def getInputs_def Boolean_number_def error_defs)
qed

theorem timeout_rule_witness:
  "validateInputData (example\<lparr>timeout := Num 45\<rparr>) = Inl InvalidTimeout \<and>
   validateInputData (example\<lparr>timeout := Decimal False 305 2\<rparr>) = Inl InvalidTimeout \<and>
   String_number (Decimal False 305 2) = ''30.5'' \<and>
   validateInputData (example\<lparr>timeout := Infinity\<rparr>) = Inl InvalidTimeout \<and>
   validateInputData (example\<lparr>timeout := Num (- 30)\<rparr>) = Inl InvalidTimeout \<and>
   timeout fileExample = Num 0 \<and>
   validateInputData fileExample \<noteq> Inl InvalidTimeout \<and>
   (\<lambda>name. if name = ''platform'' then ''ios'' else if name = ''appFile'' then ''app.zip'' else [])
     ''timeout'' = [] \<and>
   validateInputData
     (getInputs
        (\<lambda>name. if name = ''platform'' then ''ios'' else if name = ''appFile'' then ''app.zip'' else [])
        (\<lambda>s. if s = [] then Num 0 else NaN)) \<noteq> Inl InvalidTimeout"
proof -
  have s: "String_number (Decimal False 305 2) = ''30.5''"
    by (simp add: String_number_def decimalText_def Let_def)
  show ?thesis
    using s
      timeout_rule [of "example\<lparr>timeout := Num 45\<rparr>"]
      timeout_rule [of "example\<lparr>timeout := Decimal False 305 2\<rparr>"]
      timeout_rule [of "example\<lparr>timeout := Infinity\<rparr>"]
      timeout_rule [of "example\<lparr>timeout := Num (- 30)\<rparr>"]
      timeout_rule [of fileExample
        "\<lambda>name. if name = ''platform'' then ''ios'' else if name = ''appFile'' then ''app.zip'' else []"
        "\<lambda>s. if s = [] then Num 0 else NaN"]
    by (simp add: example_def fileExample_def)
qed

text \<open>
  The validator accepts exactly the configurations with a platform of the two, at least
  one source, a file type that is empty or listed, and a timeout that is \<open>NaN\<close>, zero or
  listed; fractional and infinite timeouts are refused.
\<close>

theorem validate_accepts_iff:
  "(validateInputData c = Inr ()) =
     ((platform c = ''ios'' \<or> platform c = ''android'') \<and>
      (appFile c \<noteq> [] \<or> appUrl c \<noteq> []) \<and>
      fileType c \<in> {[], ''apk'', ''zip'', ''tar.gz''} \<and>
      timeout c \<in> insert NaN (Num ` {0, 30, 60, 120, 180, 300, 600, 1800, 3600, 7200}))"
  by (cases "timeout c")
    (auto simp add: validateInputData_def Boolean_string_def Boolean_number_def)

theorem validate_accepts_iff_witness:
  "validateInputData example = Inr () \<and>
   platform example = ''android'' \<and> appUrl example \<noteq> [] \<and> fileType example = ''apk'' \<and>
   timeout example = Num 60 \<and>
   validateInputData (example\<lparr>timeout := NaN\<rparr>) = Inr () \<and>
   validateInputData (example\<lparr>timeout := Num 45\<rparr>) \<noteq> Inr ()"
  using validate_accepts_iff [of example] validate_accepts_iff [of "example\<lparr>timeout := NaN\<rparr>"]
    validate_accepts_iff [of "example\<lparr>timeout := Num 45\<rparr>"]
  by (simp add: example_def)

end
